theory Spec2Isabelle
  imports Main
begin

section \<open>Python values and helpers\<close>

text \<open>
  The exceptions that can leave \<open>AnimItem.load\<close> and \<open>AnimItem.save\<close>:
  \<open>AttributeError\<close> from \<open>option.lower()\<close> on \<open>None\<close>, \<open>ValueError\<close> from unpacking
  a \<open>source\<close> that does not have two elements, and whatever an external collaborator
  (\<open>mutils\<close>, \<open>BaseItem\<close>) raises, which this layer never catches.
\<close>

datatype error = AttributeError | ValueError | Raised string


text \<open>
  \<open>str.lower()\<close> on the ASCII letters; every other character is kept. \<open>load\<close> uses the
  result only to compare it with an ASCII literal.
\<close>

definition lower_char :: "char \<Rightarrow> char" where
  "lower_char c =
     (case map_of (zip ''ABCDEFGHIJKLMNOPQRSTUVWXYZ'' ''abcdefghijklmnopqrstuvwxyz'') c of
        Some l \<Rightarrow> l
      | None \<Rightarrow> c)"

definition lower :: "string \<Rightarrow> string" where
  "lower s = map lower_char s"

text \<open>\<open>str.endswith(suffix)\<close>.\<close>

definition endswith :: "string \<Rightarrow> string \<Rightarrow> bool" where
  "endswith s suf = (length suf \<le> length s \<and> drop (length s - length suf) s = suf)"

text \<open>\<open>x or 0\<close> for a frame that is an integer or \<open>None\<close>: a falsy \<open>x\<close> gives \<open>0\<close>.\<close>

definition or_zero :: "int option \<Rightarrow> int" where
  "or_zero x = (case x of None \<Rightarrow> 0 | Some v \<Rightarrow> if v \<noteq> 0 then v else 0)"

text \<open>\<open>xs or []\<close> for a list that may be \<open>None\<close>.\<close>

definition or_empty :: "'a list option \<Rightarrow> 'a list" where
  "or_empty x = (case x of None \<Rightarrow> [] | Some xs \<Rightarrow> if xs \<noteq> [] then xs else [])"

text \<open>\<open>a, b = xs\<close>: unpacking raises \<open>ValueError\<close> unless \<open>xs\<close> has exactly two elements.\<close>

fun unpack2 :: "'a list \<Rightarrow> error + ('a \<times> 'a)" where
  "unpack2 [a, b] = Inr (a, b)"
| "unpack2 _ = Inl ValueError"

section \<open>The item and its transfer object\<close>

text \<open>
  Modelled from the spec: \<open>BaseItem.transferObject()\<close> and the \<open>startFrame()\<close> and
  \<open>endFrame()\<close> of \<open>mutils.Animation\<close> are not in the source file. By section 4.4 of the
  spec the accessors of the item proxy to the bundle's recorded transfer object, the source
  of truth for its range: the item holds the transfer object of its bundle, and reading a
  recorded frame from it changes nothing. A recorded frame is an integer or \<open>None\<close>
  (\<open>loadOptions\<close> guards both with \<open>or 0\<close>).
\<close>

record transfer_object =
  to_startFrame :: "int option"
  to_endFrame :: "int option"

record anim_item =
  item_path :: string
  transferObject :: transfer_object

definition startFrame :: "anim_item \<Rightarrow> int option" where
  "startFrame self = to_startFrame (transferObject self)"

definition endFrame :: "anim_item \<Rightarrow> int option" where
  "endFrame self = to_endFrame (transferObject self)"

definition imageSequencePath :: "anim_item \<Rightarrow> string" where
  "imageSequencePath self = item_path self @ ''/sequence''"

section \<open>loadOptions\<close>




section \<open>load\<close>

text \<open>The keyword arguments of \<open>AnimItem.load\<close>; \<open>None\<close> is the default of each but the last.\<close>

record load_args =
  arg_objects :: "string list option"
  arg_namespaces :: "string list option"
  arg_startFrame :: "int option"
  arg_source :: "int option list option"
  arg_option :: "string option"
  arg_connect :: "bool option"
  arg_currentTime :: bool

text \<open>The keyword arguments \<open>AnimItem.load\<close> passes to \<open>TransferObject.load\<close>.\<close>

record load_request =
  req_objects :: "string list"
  req_namespaces :: "string list option"
  req_currentTime :: bool
  req_connect :: "bool option"
  req_option :: string
  req_startFrame :: "int option"
  req_sourceTime :: "int option \<times> int option"

text \<open>
  What a call of \<open>load\<close> leaves behind: the \<open>logger.info\<close> messages and the calls
  \<open>TransferObject.load\<close> has received, both in order.
\<close>

record load_world =
  logged :: "string list"
  replayed :: "load_request list"

text \<open>Lines 221-222: the user-facing label \<open>replace all\<close> in any letter case.\<close>

definition normalizeOption :: "string \<Rightarrow> string" where
  "normalizeOption option' =
     (if lower option' = ''replace all'' then ''replaceCompletely'' else option')"

text \<open>Lines 224-227: the explicit window, or \<open>(None, None)\<close> for unset, empty and \<open>[0, 0]\<close>.\<close>

definition unpackSource :: "int option list option \<Rightarrow> error + (int option \<times> int option)" where
  "unpackSource source =
     (case source of
        None \<Rightarrow> Inr (None, None)
      | Some xs \<Rightarrow>
          if xs \<noteq> [] \<and> xs \<noteq> [Some 0, Some 0] then unpack2 xs else Inr (None, None))"

text \<open>
  \<open>replay\<close> is the external \<open>TransferObject.load\<close>: \<open>None\<close> when it returns, the exception
  when it raises.
\<close>

definition load ::
  "(load_request \<Rightarrow> error option) \<Rightarrow> anim_item \<Rightarrow> load_args \<Rightarrow> load_world
     \<Rightarrow> (error + unit) \<times> load_world" where
  "load replay self a w =
     (let w1 = w\<lparr>logged := logged w @ [''Loading: '' @ item_path self]\<rparr>;
          objects = or_empty (arg_objects a)
      in case arg_option a of
           None \<Rightarrow> (Inl AttributeError, w1)
         | Some option0 \<Rightarrow>
             (let option' = normalizeOption option0
              in case unpackSource (arg_source a) of
                   Inl e \<Rightarrow> (Inl e, w1)
                 | Inr (sourceStart0, sourceEnd0) \<Rightarrow>
                     (let sourceStart =
                            (case sourceStart0 of None \<Rightarrow> startFrame self | Some s \<Rightarrow> Some s);
                          sourceEnd =
                            (case sourceEnd0 of None \<Rightarrow> endFrame self | Some e \<Rightarrow> Some e);
                          req = \<lparr>req_objects = objects,
                                 req_namespaces = arg_namespaces a,
                                 req_currentTime = arg_currentTime a,
                                 req_connect = arg_connect a,
                                 req_option = option',
                                 req_startFrame = arg_startFrame a,
                                 req_sourceTime = (sourceStart, sourceEnd)\<rparr>;
                          w2 = w1\<lparr>replayed := replayed w1 @ [req]\<rparr>
                      in (case replay req of
                            Some e \<Rightarrow> (Inl e, w2)
                          | None \<Rightarrow>
                              (Inr (),
                               w2\<lparr>logged := logged w2 @ [''Loaded: '' @ item_path self]\<rparr>)))))"

section \<open>save\<close>

text \<open>
  The external collaborators of \<open>AnimItem.save\<close>, each a parameter. A call that raises
  returns \<open>Inl\<close> of the exception. \<open>'a\<close> is the transfer object built by
  \<open>transferClass().fromObjects\<close>; \<open>updateMetadata\<close> and \<open>save\<close> mutate it, so each returns
  the object it leaves. \<open>commit\<close> is \<open>BaseItem.save\<close> acting on the permanent library
  location \<open>'s\<close>: it returns the exception it raised, if any, and the location as it left it.
  The staging directory is owned by \<open>mutils.TempDir\<close> and the serializer and is not part
  of the permanent location.
\<close>

record ('a, 'm, 's) collaborators =
  TempDir :: "error + string"
  fromObjects :: "string list option \<Rightarrow> error + 'a"
  updateMetadata :: "'a \<Rightarrow> 'm \<Rightarrow> error + 'a"
  anim_save :: "'a \<Rightarrow> string \<Rightarrow> string \<Rightarrow> int option \<times> int option \<Rightarrow> bool \<Rightarrow> error + 'a"
  paths :: "'a \<Rightarrow> string list"
  commit :: "string \<Rightarrow> string list \<Rightarrow> 's \<Rightarrow> error option \<times> 's"

text \<open>The arguments of \<open>AnimItem.save\<close>.\<close>

record 'm save_args =
  s_objects :: "string list option"
  s_path :: string
  s_contents :: "string list option"
  s_iconPath :: string
  s_fileType :: string
  s_startFrame :: "int option"
  s_endFrame :: "int option"
  s_bakeConnected :: bool
  s_metadata :: 'm

text \<open>
  The permanent library location and the calls \<open>BaseItem.save\<close> has received, each with
  its \<open>path\<close> and \<open>contents\<close>.
\<close>

record 's save_world =
  committed :: "(string \<times> string list) list"
  permanent :: 's

text \<open>Lines 272-273.\<close>

definition normalizePath :: "string \<Rightarrow> string" where
  "normalizePath path = (if path \<noteq> [] \<and> \<not> endswith path ''.anim'' then path @ ''.anim'' else path)"

text \<open>Line 297: the call of the base class, recorded before the external code runs.\<close>

definition BaseItem_save ::
  "('a, 'm, 's) collaborators \<Rightarrow> string \<Rightarrow> string list \<Rightarrow> 's save_world
     \<Rightarrow> (error + unit) \<times> 's save_world" where
  "BaseItem_save env path contents w =
     (let w1 = w\<lparr>committed := committed w @ [(path, contents)]\<rparr>;
          r = commit env path contents (permanent w1)
      in (case fst r of Some e \<Rightarrow> Inl e | None \<Rightarrow> Inr (), w1\<lparr>permanent := snd r\<rparr>))"

definition save ::
  "('a, 'm, 's) collaborators \<Rightarrow> anim_item \<Rightarrow> 'm save_args \<Rightarrow> 's save_world
     \<Rightarrow> (error + unit) \<times> 's save_world" where
  "save env self a w =
     (let path = normalizePath (s_path a);
          contents = or_empty (s_contents a)
      in case TempDir env of
           Inl e \<Rightarrow> (Inl e, w)
         | Inr tempDir \<Rightarrow>
             (let tempPath = tempDir @ ''/transfer.anim''
              in case fromObjects env (s_objects a) of
                   Inl e \<Rightarrow> (Inl e, w)
                 | Inr anim \<Rightarrow>
                     (case updateMetadata env anim (s_metadata a) of
                        Inl e \<Rightarrow> (Inl e, w)
                      | Inr anim1 \<Rightarrow>
                          (case anim_save env anim1 tempPath (s_fileType a)
                                  (s_startFrame a, s_endFrame a) (s_bakeConnected a) of
                             Inl e \<Rightarrow> (Inl e, w)
                           | Inr anim2 \<Rightarrow>
                               (let contents1 =
                                      (if s_iconPath a \<noteq> [] then contents @ [s_iconPath a]
                                       else contents);
                                    contents2 = contents1 @ paths env anim2
                                in BaseItem_save env path contents2 w)))))"

section \<open>Facts about the helpers\<close>

lemma lower_replaceCompletely: "lower ''replaceCompletely'' \<noteq> ''replace all''"
  by (simp add: lower_def lower_char_def)

lemma or_empty_eq: "or_empty x = (case x of None \<Rightarrow> [] | Some xs \<Rightarrow> xs)"
  by (simp add: or_empty_def split: option.splits)

lemma or_zero_Some: "or_zero (Some v) = v"
  by (simp add: or_zero_def)

lemma normalizeOption_idem: "normalizeOption (normalizeOption x) = normalizeOption x"
  by (simp add: normalizeOption_def lower_replaceCompletely)

lemma unpackSource_unset:
  "source = None \<or> source = Some [Some 0, Some 0] \<Longrightarrow> unpackSource source = Inr (None, None)"
  by (auto simp: unpackSource_def)

lemma unpackSource_explicit:
  "(s, e) \<noteq> (0, 0) \<Longrightarrow> unpackSource (Some [Some s, Some e]) = Inr (Some s, Some e)"
  by (auto simp: unpackSource_def)

text \<open>
  Once \<open>option\<close> is a string and \<open>source\<close> unpacks, \<open>load\<close> calls \<open>TransferObject.load\<close>
  exactly once, with this request, whatever the replay engine then does.
\<close>

lemma load_forwards:
  assumes "arg_option a = Some option0" and "unpackSource (arg_source a) = Inr (s0, e0)"
  shows "replayed (snd (load replay self a w)) = replayed w @
           [\<lparr>req_objects = or_empty (arg_objects a),
             req_namespaces = arg_namespaces a,
             req_currentTime = arg_currentTime a,
             req_connect = arg_connect a,
             req_option = normalizeOption option0,
             req_startFrame = arg_startFrame a,
             req_sourceTime =
               (case s0 of None \<Rightarrow> startFrame self | Some s \<Rightarrow> Some s,
                case e0 of None \<Rightarrow> endFrame self | Some e \<Rightarrow> Some e)\<rparr>]"
  using assms by (simp add: load_def Let_def split: option.splits)

section \<open>Properties of load\<close>

text \<open>
  C7. A call of \<open>load\<close> whose \<open>option\<close> is \<open>None\<close> raises \<open>AttributeError\<close> at
  \<open>option.lower()\<close>: only the first log line has been written, nothing has been resolved
  and \<open>TransferObject.load\<close> has not been called.
\<close>

theorem load_missing_option:
  "arg_option a = None \<Longrightarrow>
     load replay self a w =
       (Inl AttributeError, w\<lparr>logged := logged w @ [''Loading: '' @ item_path self]\<rparr>)
     \<and> replayed (snd (load replay self a w)) = replayed w"
  by (simp add: load_def Let_def)

theorem load_missing_option_witness:
  "load Map.empty
      \<lparr>item_path = ''/lib/walk.anim'',
        transferObject = \<lparr>to_startFrame = Some 0, to_endFrame = Some 200\<rparr>\<rparr>
      \<lparr>arg_objects = Some [''pCube1''], arg_namespaces = None, arg_startFrame = None,
        arg_source = None, arg_option = None, arg_connect = None, arg_currentTime = False\<rparr>
      \<lparr>logged = [], replayed = []\<rparr>
   = (Inl AttributeError, \<lparr>logged = [''Loading: /lib/walk.anim''], replayed = []\<rparr>)"
  using load_missing_option [of
      "\<lparr>arg_objects = Some [''pCube1''], arg_namespaces = None, arg_startFrame = None,
        arg_source = None, arg_option = None, arg_connect = None, arg_currentTime = False\<rparr>"
      Map.empty
      "\<lparr>item_path = ''/lib/walk.anim'',
        transferObject = \<lparr>to_startFrame = Some 0, to_endFrame = Some 200\<rparr>\<rparr>"
      "\<lparr>logged = [], replayed = []\<rparr>"]
  by simp

text \<open>
  C2. With a string for \<open>option\<close>, the option passed on is \<open>replaceCompletely\<close> when the
  given one equals \<open>replace all\<close> once lower-cased, and the given string itself otherwise;
  normalizing the option passed on again does not change it.
\<close>

theorem load_option_normalized:
  assumes "arg_option a = Some option0" and "unpackSource (arg_source a) = Inr p"
  shows "\<exists>req. replayed (snd (load replay self a w)) = replayed w @ [req]
           \<and> (lower option0 = ''replace all'' \<longrightarrow> req_option req = ''replaceCompletely'')
           \<and> (lower option0 \<noteq> ''replace all'' \<longrightarrow> req_option req = option0)
           \<and> normalizeOption (req_option req) = req_option req"
proof -
  obtain s0 e0 where p: "p = (s0, e0)" by (cases p)
  note fw = load_forwards [OF assms(1) assms(2) [unfolded p], of replay self w]
  show ?thesis
    unfolding fw by (simp add: normalizeOption_idem) (simp add: normalizeOption_def)
qed

theorem load_option_normalized_witness:
  "map req_option (replayed (snd (load Map.empty
      \<lparr>item_path = ''/lib/walk.anim'',
        transferObject = \<lparr>to_startFrame = Some 0, to_endFrame = Some 200\<rparr>\<rparr>
      \<lparr>arg_objects = Some [''pCube1''], arg_namespaces = None, arg_startFrame = None,
        arg_source = None, arg_option = Some ''Replace All'', arg_connect = None,
        arg_currentTime = False\<rparr>
      \<lparr>logged = [], replayed = []\<rparr>))) = [''replaceCompletely'']"
proof -
  have l: "lower ''Replace All'' = ''replace all''"
    by (simp add: lower_def lower_char_def)
  have u: "unpackSource None = Inr (None, None)"
    by (simp add: unpackSource_def)
  from load_option_normalized [of
      "\<lparr>arg_objects = Some [''pCube1''], arg_namespaces = None, arg_startFrame = None,
        arg_source = None, arg_option = Some ''Replace All'', arg_connect = None,
        arg_currentTime = False\<rparr>"
      "''Replace All''" "(None, None)" Map.empty
      "\<lparr>item_path = ''/lib/walk.anim'',
        transferObject = \<lparr>to_startFrame = Some 0, to_endFrame = Some 200\<rparr>\<rparr>"
      "\<lparr>logged = [], replayed = []\<rparr>"] l u
  show ?thesis by auto
qed

text \<open>
  The lower-cased string is used for the comparison only. The option \<open>Merge\<close> is not
  \<open>replace all\<close>; it is passed on as \<open>Merge\<close>, in its own letter case, and not as its
  lower-cased form \<open>merge\<close>.
\<close>

theorem load_option_not_lower_cased:
  "map req_option (replayed (snd (load Map.empty
      \<lparr>item_path = ''/lib/walk.anim'',
        transferObject = \<lparr>to_startFrame = Some 0, to_endFrame = Some 200\<rparr>\<rparr>
      \<lparr>arg_objects = None, arg_namespaces = None, arg_startFrame = None,
        arg_source = Some [Some 50, Some 100], arg_option = Some ''Merge'', arg_connect = Some True,
        arg_currentTime = False\<rparr>
      \<lparr>logged = [], replayed = []\<rparr>))) = [''Merge'']
   \<and> lower ''Merge'' = ''merge'' \<and> ''Merge'' \<noteq> lower ''Merge''"
  by (simp add: load_def Let_def unpackSource_def normalizeOption_def lower_def lower_char_def)

text \<open>
  C3. With \<open>source\<close> unset or \<open>[0, 0]\<close>, the window passed on is the one the bundle
  records, \<open>(startFrame(), endFrame())\<close>. Both of its components are frames exactly when
  the bundle records both: \<open>load\<close> supplies no frame of its own.
\<close>

theorem load_default_source:
  assumes "arg_option a = Some option0"
    and "arg_source a = None \<or> arg_source a = Some [Some 0, Some 0]"
  shows "\<exists>req. replayed (snd (load replay self a w)) = replayed w @ [req]
           \<and> req_sourceTime req = (startFrame self, endFrame self)
           \<and> ((fst (req_sourceTime req) \<noteq> None \<and> snd (req_sourceTime req) \<noteq> None)
                = (startFrame self \<noteq> None \<and> endFrame self \<noteq> None))"
proof -
  have u: "unpackSource (arg_source a) = Inr (None, None)"
    using assms(2) by (rule unpackSource_unset)
  show ?thesis
    unfolding load_forwards [OF assms(1) u] by simp
qed

theorem load_default_source_witness:
  "map req_sourceTime (replayed (snd (load Map.empty
      \<lparr>item_path = ''/lib/char/walk.anim'',
        transferObject = \<lparr>to_startFrame = Some 0, to_endFrame = Some 200\<rparr>\<rparr>
      \<lparr>arg_objects = Some [''pCube1''], arg_namespaces = None, arg_startFrame = None,
        arg_source = Some [Some 0, Some 0], arg_option = Some ''replace all'', arg_connect = None,
        arg_currentTime = False\<rparr>
      \<lparr>logged = [], replayed = []\<rparr>))) = [(Some 0, Some 200)]"
  using load_default_source [of
      "\<lparr>arg_objects = Some [''pCube1''], arg_namespaces = None, arg_startFrame = None,
        arg_source = Some [Some 0, Some 0], arg_option = Some ''replace all'', arg_connect = None,
        arg_currentTime = False\<rparr>"
      "''replace all''" Map.empty
      "\<lparr>item_path = ''/lib/char/walk.anim'',
        transferObject = \<lparr>to_startFrame = Some 0, to_endFrame = Some 200\<rparr>\<rparr>"
      "\<lparr>logged = [], replayed = []\<rparr>"]
  by (auto simp: startFrame_def endFrame_def)

text \<open>
  A bundle whose transfer object records no frames: the call without \<open>source\<close> passes the
  window \<open>(None, None)\<close> on.
\<close>

theorem load_default_source_null_window:
  "map req_sourceTime (replayed (snd (load Map.empty
      \<lparr>item_path = ''/lib/char/walk.anim'',
        transferObject = \<lparr>to_startFrame = None, to_endFrame = None\<rparr>\<rparr>
      \<lparr>arg_objects = Some [''pCube1''], arg_namespaces = None, arg_startFrame = None,
        arg_source = None, arg_option = Some ''replace'', arg_connect = None,
        arg_currentTime = False\<rparr>
      \<lparr>logged = [], replayed = []\<rparr>))) = [(None, None)]"
  by (simp add: load_def Let_def unpackSource_def normalizeOption_def lower_def lower_char_def
      startFrame_def endFrame_def)

text \<open>
  C4. An explicit \<open>source\<close> of two frames other than \<open>[0, 0]\<close> is passed on as it is,
  whatever the bundle records.
\<close>

theorem load_explicit_source:
  assumes "arg_option a = Some option0" and "arg_source a = Some [Some s, Some e]"
    and "(s, e) \<noteq> (0, 0)"
  shows "\<exists>req. replayed (snd (load replay self a w)) = replayed w @ [req]
           \<and> req_sourceTime req = (Some s, Some e)"
proof -
  have u: "unpackSource (arg_source a) = Inr (Some s, Some e)"
    using assms(2) unpackSource_explicit [OF assms(3)] by simp
  show ?thesis
    unfolding load_forwards [OF assms(1) u] by simp
qed

theorem load_explicit_source_witness:
  "map req_sourceTime (replayed (snd (load Map.empty
      \<lparr>item_path = ''/lib/walk.anim'',
        transferObject = \<lparr>to_startFrame = Some 0, to_endFrame = Some 200\<rparr>\<rparr>
      \<lparr>arg_objects = None, arg_namespaces = None, arg_startFrame = None,
        arg_source = Some [Some 50, Some 100], arg_option = Some ''merge'', arg_connect = Some True,
        arg_currentTime = False\<rparr>
      \<lparr>logged = [], replayed = []\<rparr>))) = [(Some 50, Some 100)]"
  using load_explicit_source [of
      "\<lparr>arg_objects = None, arg_namespaces = None, arg_startFrame = None,
        arg_source = Some [Some 50, Some 100], arg_option = Some ''merge'', arg_connect = Some True,
        arg_currentTime = False\<rparr>"
      "''merge''" 50 100 Map.empty
      "\<lparr>item_path = ''/lib/walk.anim'',
        transferObject = \<lparr>to_startFrame = Some 0, to_endFrame = Some 200\<rparr>\<rparr>"
      "\<lparr>logged = [], replayed = []\<rparr>"]
  by auto

text \<open>
  C9. With \<open>objects\<close> absent the request carries the empty list, while \<open>namespaces\<close> is
  passed on as given, \<open>None\<close> included.
\<close>

theorem load_objects_default:
  assumes "arg_option a = Some option0" and "unpackSource (arg_source a) = Inr p"
    and "arg_objects a = None"
  shows "\<exists>req. replayed (snd (load replay self a w)) = replayed w @ [req]
           \<and> req_objects req = [] \<and> req_namespaces req = arg_namespaces a"
proof -
  obtain s0 e0 where p: "p = (s0, e0)" by (cases p)
  show ?thesis
    unfolding load_forwards [OF assms(1) assms(2) [unfolded p]]
    using assms(3) by (simp add: or_empty_def)
qed

theorem load_objects_default_witness:
  "map req_objects (replayed (snd (load Map.empty
      \<lparr>item_path = ''/lib/walk.anim'',
        transferObject = \<lparr>to_startFrame = Some 0, to_endFrame = Some 200\<rparr>\<rparr>
      \<lparr>arg_objects = None, arg_namespaces = None, arg_startFrame = None,
        arg_source = None, arg_option = Some ''insert'', arg_connect = None,
        arg_currentTime = False\<rparr>
      \<lparr>logged = [], replayed = []\<rparr>))) = [[]]
   \<and> map req_namespaces (replayed (snd (load Map.empty
      \<lparr>item_path = ''/lib/walk.anim'',
        transferObject = \<lparr>to_startFrame = Some 0, to_endFrame = Some 200\<rparr>\<rparr>
      \<lparr>arg_objects = None, arg_namespaces = None, arg_startFrame = None,
        arg_source = None, arg_option = Some ''insert'', arg_connect = None,
        arg_currentTime = False\<rparr>
      \<lparr>logged = [], replayed = []\<rparr>))) = [None]"
proof -
  have u: "unpackSource None = Inr (None, None)"
    by (simp add: unpackSource_def)
  from load_objects_default [of
      "\<lparr>arg_objects = None, arg_namespaces = None, arg_startFrame = None,
        arg_source = None, arg_option = Some ''insert'', arg_connect = None,
        arg_currentTime = False\<rparr>"
      "''insert''" "(None, None)" Map.empty
      "\<lparr>item_path = ''/lib/walk.anim'',
        transferObject = \<lparr>to_startFrame = Some 0, to_endFrame = Some 200\<rparr>\<rparr>"
      "\<lparr>logged = [], replayed = []\<rparr>"] u
  show ?thesis by auto
qed

section \<open>Properties of loadOptions\<close>







section \<open>Properties of save\<close>

lemma endswith_append: "endswith (p @ suf) suf"
  by (simp add: endswith_def)

lemma normalizePath_idem: "normalizePath (normalizePath p) = normalizePath p"
  by (simp add: normalizePath_def endswith_append)

lemma normalizePath_add: "p \<noteq> [] \<Longrightarrow> \<not> endswith p ''.anim'' \<Longrightarrow> normalizePath p = p @ ''.anim''"
  by (simp add: normalizePath_def)

lemma normalizePath_keep: "endswith p ''.anim'' \<Longrightarrow> normalizePath p = p"
  by (simp add: normalizePath_def)

lemma normalizePath_empty: "normalizePath [] = []"
  by (simp add: normalizePath_def)

lemma BaseItem_save_committed:
  "committed (snd (BaseItem_save env path contents w)) = committed w @ [(path, contents)]"
  by (simp add: BaseItem_save_def Let_def)

lemma save_staged:
  assumes "TempDir env = Inr tempDir"
    and "fromObjects env (s_objects a) = Inr anim"
    and "updateMetadata env anim (s_metadata a) = Inr anim1"
    and "anim_save env anim1 (tempDir @ ''/transfer.anim'') (s_fileType a)
           (s_startFrame a, s_endFrame a) (s_bakeConnected a) = Inr anim2"
  shows "save env self a w =
           BaseItem_save env (normalizePath (s_path a))
             (or_empty (s_contents a) @ (if s_iconPath a \<noteq> [] then [s_iconPath a] else [])
                @ paths env anim2) w"
  using assms by (simp add: save_def Let_def)

lemma save_commit_only_after_staging:
  assumes "committed (snd (save env self a w)) \<noteq> committed w"
  shows "\<exists>tempDir anim anim1 anim2.
           TempDir env = Inr tempDir
         \<and> fromObjects env (s_objects a) = Inr anim
         \<and> updateMetadata env anim (s_metadata a) = Inr anim1
         \<and> anim_save env anim1 (tempDir @ ''/transfer.anim'') (s_fileType a)
              (s_startFrame a, s_endFrame a) (s_bakeConnected a) = Inr anim2"
  using assms by (auto simp: save_def Let_def split: sum.splits)

lemma save_staging_raises:
  assumes "TempDir env = Inr tempDir"
    and "fromObjects env (s_objects a) = Inl e
       \<or> (\<exists>anim. fromObjects env (s_objects a) = Inr anim
              \<and> updateMetadata env anim (s_metadata a) = Inl e)
       \<or> (\<exists>anim anim1. fromObjects env (s_objects a) = Inr anim
              \<and> updateMetadata env anim (s_metadata a) = Inr anim1
              \<and> anim_save env anim1 (tempDir @ ''/transfer.anim'') (s_fileType a)
                   (s_startFrame a, s_endFrame a) (s_bakeConnected a) = Inl e)"
  shows "save env self a w = (Inl e, w)"
  using assms by (auto simp: save_def Let_def)

lemma save_success_staged:
  assumes "fst (save env self a w) = Inr ()"
  shows "\<exists>tempDir anim anim1 anim2.
           TempDir env = Inr tempDir
         \<and> fromObjects env (s_objects a) = Inr anim
         \<and> updateMetadata env anim (s_metadata a) = Inr anim1
         \<and> anim_save env anim1 (tempDir @ ''/transfer.anim'') (s_fileType a)
              (s_startFrame a, s_endFrame a) (s_bakeConnected a) = Inr anim2"
  using assms by (auto simp: save_def Let_def split: sum.splits)

text \<open>
  C1. When building the transfer object from the objects, attaching the metadata or
  serializing into the staging directory raises, \<open>save\<close> raises the same exception,
  \<open>BaseItem.save\<close> has received no call and the permanent location is as it was. A call
  of \<open>BaseItem.save\<close> is made only after all three steps have returned.
\<close>

theorem save_all_or_nothing:
  "(TempDir env = Inr tempDir
      \<and> (fromObjects env (s_objects a) = Inl e
         \<or> (\<exists>anim. fromObjects env (s_objects a) = Inr anim
                \<and> updateMetadata env anim (s_metadata a) = Inl e)
         \<or> (\<exists>anim anim1. fromObjects env (s_objects a) = Inr anim
                \<and> updateMetadata env anim (s_metadata a) = Inr anim1
                \<and> anim_save env anim1 (tempDir @ ''/transfer.anim'') (s_fileType a)
                     (s_startFrame a, s_endFrame a) (s_bakeConnected a) = Inl e))
    \<longrightarrow> fst (save env self a w) = Inl e
        \<and> committed (snd (save env self a w)) = committed w
        \<and> permanent (snd (save env self a w)) = permanent w)
   \<and> (committed (snd (save env self a w)) \<noteq> committed w
    \<longrightarrow> (\<exists>tempDir anim anim1 anim2.
           TempDir env = Inr tempDir
         \<and> fromObjects env (s_objects a) = Inr anim
         \<and> updateMetadata env anim (s_metadata a) = Inr anim1
         \<and> anim_save env anim1 (tempDir @ ''/transfer.anim'') (s_fileType a)
              (s_startFrame a, s_endFrame a) (s_bakeConnected a) = Inr anim2))"
proof (intro conjI impI)
  assume h: "TempDir env = Inr tempDir
      \<and> (fromObjects env (s_objects a) = Inl e
         \<or> (\<exists>anim. fromObjects env (s_objects a) = Inr anim
                \<and> updateMetadata env anim (s_metadata a) = Inl e)
         \<or> (\<exists>anim anim1. fromObjects env (s_objects a) = Inr anim
                \<and> updateMetadata env anim (s_metadata a) = Inr anim1
                \<and> anim_save env anim1 (tempDir @ ''/transfer.anim'') (s_fileType a)
                     (s_startFrame a, s_endFrame a) (s_bakeConnected a) = Inl e))"
  then have r: "save env self a w = (Inl e, w)"
    using save_staging_raises [of env tempDir a e self w] by blast
  show "fst (save env self a w) = Inl e" by (simp add: r)
  show "committed (snd (save env self a w)) = committed w" by (simp add: r)
  show "permanent (snd (save env self a w)) = permanent w" by (simp add: r)
next
  assume "committed (snd (save env self a w)) \<noteq> committed w"
  then show "\<exists>tempDir anim anim1 anim2.
           TempDir env = Inr tempDir
         \<and> fromObjects env (s_objects a) = Inr anim
         \<and> updateMetadata env anim (s_metadata a) = Inr anim1
         \<and> anim_save env anim1 (tempDir @ ''/transfer.anim'') (s_fileType a)
              (s_startFrame a, s_endFrame a) (s_bakeConnected a) = Inr anim2"
    by (rule save_commit_only_after_staging)
qed

theorem save_all_or_nothing_witness:
  "save
     \<lparr>TempDir = Inr ''/tmp/Transfer'',
       fromObjects = (\<lambda>objects. Inr []),
       updateMetadata = (\<lambda>anim metadata. Inr anim),
       anim_save = (\<lambda>anim tempPath fileType time bakeConnected. Inl (Raised ''disk full'')),
       paths = (\<lambda>anim. anim),
       commit = (\<lambda>path contents store. (None, path # store))\<rparr>
     \<lparr>item_path = [], transferObject = \<lparr>to_startFrame = None, to_endFrame = None\<rparr>\<rparr>
     \<lparr>s_objects = Some [''pCube1''], s_path = ''/lib/char/walk'', s_contents = None,
       s_iconPath = [], s_fileType = ''mayaAscii'', s_startFrame = Some 0, s_endFrame = Some 200,
       s_bakeConnected = False, s_metadata = ()\<rparr>
     \<lparr>committed = [], permanent = []\<rparr>
   = (Inl (Raised ''disk full''), \<lparr>committed = [], permanent = []\<rparr>)"
proof -
  let ?env = "\<lparr>TempDir = Inr ''/tmp/Transfer'',
       fromObjects = (\<lambda>objects. Inr []),
       updateMetadata = (\<lambda>anim metadata. Inr anim),
       anim_save = (\<lambda>anim tempPath fileType time bakeConnected. Inl (Raised ''disk full'')),
       paths = (\<lambda>anim. anim),
       commit = (\<lambda>path contents store. (None, path # store))\<rparr>
     :: (string list, unit, string list) collaborators"
  let ?self = "\<lparr>item_path = [], transferObject = \<lparr>to_startFrame = None, to_endFrame = None\<rparr>\<rparr>"
  let ?a = "\<lparr>s_objects = Some [''pCube1''], s_path = ''/lib/char/walk'', s_contents = None,
       s_iconPath = [], s_fileType = ''mayaAscii'', s_startFrame = Some 0, s_endFrame = Some 200,
       s_bakeConnected = False, s_metadata = ()\<rparr>"
  let ?w = "\<lparr>committed = [], permanent = [] :: string list\<rparr>"
  from save_all_or_nothing [of ?env "''/tmp/Transfer''" ?a "Raised ''disk full''" ?self ?w]
  have "fst (save ?env ?self ?a ?w) = Inl (Raised ''disk full'')
      \<and> committed (snd (save ?env ?self ?a ?w)) = committed ?w
      \<and> permanent (snd (save ?env ?self ?a ?w)) = permanent ?w"
    by simp
  then show ?thesis
    by (cases "save ?env ?self ?a ?w") (auto simp del: save_world.simps intro: save_world.equality)
qed

text \<open>
  C5. Once staging has returned, which every successful call has (\<open>save_success_staged\<close>),
  \<open>BaseItem.save\<close> receives the caller's extra contents, then the icon path if it is not
  empty, then the paths the serialized transfer object reports, in this order; as a set,
  the icon if any, the payload files and the extra contents.
\<close>

theorem save_contents:
  assumes "TempDir env = Inr tempDir"
    and "fromObjects env (s_objects a) = Inr anim"
    and "updateMetadata env anim (s_metadata a) = Inr anim1"
    and "anim_save env anim1 (tempDir @ ''/transfer.anim'') (s_fileType a)
           (s_startFrame a, s_endFrame a) (s_bakeConnected a) = Inr anim2"
  shows "\<exists>contents.
           committed (snd (save env self a w)) = committed w @ [(normalizePath (s_path a), contents)]
         \<and> contents = (case s_contents a of None \<Rightarrow> [] | Some extra \<Rightarrow> extra)
                        @ (if s_iconPath a \<noteq> [] then [s_iconPath a] else [])
                        @ paths env anim2
         \<and> set contents = (if s_iconPath a \<noteq> [] then {s_iconPath a} else {})
                           \<union> set (paths env anim2)
                           \<union> (case s_contents a of None \<Rightarrow> {} | Some extra \<Rightarrow> set extra)"
  unfolding save_staged [OF assms] BaseItem_save_committed or_empty_eq
  by (auto split: option.splits)

theorem save_contents_witness:
  "committed (snd (save
     \<lparr>TempDir = Inr ''/tmp/Transfer'',
       fromObjects = (\<lambda>objects. Inr []),
       updateMetadata = (\<lambda>anim metadata. Inr anim),
       anim_save = (\<lambda>anim tempPath fileType time bakeConnected. Inr [tempPath]),
       paths = (\<lambda>anim. anim),
       commit = (\<lambda>path contents store. (None, path # store))\<rparr>
     \<lparr>item_path = [], transferObject = \<lparr>to_startFrame = None, to_endFrame = None\<rparr>\<rparr>
     \<lparr>s_objects = Some [''pCube1''], s_path = ''/lib/char/walk'',
       s_contents = Some [''/tmp/sequence''], s_iconPath = ''/tmp/thumbnail.jpg'',
       s_fileType = ''mayaAscii'', s_startFrame = Some 0, s_endFrame = Some 200,
       s_bakeConnected = False, s_metadata = ()\<rparr>
     \<lparr>committed = [], permanent = []\<rparr>))
   = [(''/lib/char/walk.anim'',
       [''/tmp/sequence'', ''/tmp/thumbnail.jpg'', ''/tmp/Transfer/transfer.anim''])]"
proof -
  let ?env = "\<lparr>TempDir = Inr ''/tmp/Transfer'',
       fromObjects = (\<lambda>objects. Inr []),
       updateMetadata = (\<lambda>anim metadata. Inr anim),
       anim_save = (\<lambda>anim tempPath fileType time bakeConnected. Inr [tempPath]),
       paths = (\<lambda>anim. anim),
       commit = (\<lambda>path contents store. (None, path # store))\<rparr>
     :: (string list, unit, string list) collaborators"
  let ?self = "\<lparr>item_path = [], transferObject = \<lparr>to_startFrame = None, to_endFrame = None\<rparr>\<rparr>"
  let ?a = "\<lparr>s_objects = Some [''pCube1''], s_path = ''/lib/char/walk'',
       s_contents = Some [''/tmp/sequence''], s_iconPath = ''/tmp/thumbnail.jpg'',
       s_fileType = ''mayaAscii'', s_startFrame = Some 0, s_endFrame = Some 200,
       s_bakeConnected = False, s_metadata = ()\<rparr>"
  let ?w = "\<lparr>committed = [], permanent = [] :: string list\<rparr>"
  have n: "normalizePath ''/lib/char/walk'' = ''/lib/char/walk.anim''"
    by (simp add: normalizePath_def endswith_def)
  from save_contents [of ?env "''/tmp/Transfer''" ?a "[]" "[]" "[''/tmp/Transfer/transfer.anim'']"
      ?self ?w] n
  show ?thesis by auto
qed

text \<open>
  C6. A non-empty path without the extension and the same path with \<open>.anim\<close> appended
  reach \<open>BaseItem.save\<close> as the same path, the one with the extension; a path that
  already ends with \<open>.anim\<close> is passed on as it is; normalizing twice is normalizing once.
\<close>

theorem save_path_extension:
  assumes "TempDir env = Inr tempDir"
    and "fromObjects env (s_objects a) = Inr anim"
    and "updateMetadata env anim (s_metadata a) = Inr anim1"
    and "anim_save env anim1 (tempDir @ ''/transfer.anim'') (s_fileType a)
           (s_startFrame a, s_endFrame a) (s_bakeConnected a) = Inr anim2"
  shows "(p \<noteq> [] \<and> \<not> endswith p ''.anim'' \<longrightarrow>
            map fst (committed (snd (save env self (a\<lparr>s_path := p\<rparr>) w)))
              = map fst (committed w) @ [p @ ''.anim'']
          \<and> committed (snd (save env self (a\<lparr>s_path := p @ ''.anim''\<rparr>) w))
              = committed (snd (save env self (a\<lparr>s_path := p\<rparr>) w)))
       \<and> (endswith p ''.anim'' \<longrightarrow>
            map fst (committed (snd (save env self (a\<lparr>s_path := p\<rparr>) w)))
              = map fst (committed w) @ [p])
       \<and> normalizePath (normalizePath p) = normalizePath p"
proof -
  have st: "save env self (a\<lparr>s_path := q\<rparr>) w =
           BaseItem_save env (normalizePath q)
             (or_empty (s_contents a) @ (if s_iconPath a \<noteq> [] then [s_iconPath a] else [])
                @ paths env anim2) w" for q
    using save_staged [of env tempDir "a\<lparr>s_path := q\<rparr>" anim anim1 anim2 self w] assms
    by simp
  have k: "normalizePath (p @ ''.anim'') = p @ ''.anim''"
    by (rule normalizePath_keep) (rule endswith_append)
  show ?thesis
    unfolding st BaseItem_save_committed k
    by (simp add: normalizePath_idem normalizePath_add normalizePath_keep)
qed

theorem save_path_extension_witness:
  "map fst (committed (snd (save
     \<lparr>TempDir = Inr ''/tmp/Transfer'',
       fromObjects = (\<lambda>objects. Inr []),
       updateMetadata = (\<lambda>anim metadata. Inr anim),
       anim_save = (\<lambda>anim tempPath fileType time bakeConnected. Inr [tempPath]),
       paths = (\<lambda>anim. anim),
       commit = (\<lambda>path contents store. (None, path # store))\<rparr>
     \<lparr>item_path = [], transferObject = \<lparr>to_startFrame = None, to_endFrame = None\<rparr>\<rparr>
     \<lparr>s_objects = Some [''pCube1''], s_path = ''foo'', s_contents = None, s_iconPath = [],
       s_fileType = ''mayaAscii'', s_startFrame = None, s_endFrame = None,
       s_bakeConnected = False, s_metadata = ()\<rparr>
     \<lparr>committed = [], permanent = []\<rparr>))) = [''foo.anim'']
   \<and> map fst (committed (snd (save
     \<lparr>TempDir = Inr ''/tmp/Transfer'',
       fromObjects = (\<lambda>objects. Inr []),
       updateMetadata = (\<lambda>anim metadata. Inr anim),
       anim_save = (\<lambda>anim tempPath fileType time bakeConnected. Inr [tempPath]),
       paths = (\<lambda>anim. anim),
       commit = (\<lambda>path contents store. (None, path # store))\<rparr>
     \<lparr>item_path = [], transferObject = \<lparr>to_startFrame = None, to_endFrame = None\<rparr>\<rparr>
     \<lparr>s_objects = Some [''pCube1''], s_path = ''foo.anim'', s_contents = None, s_iconPath = [],
       s_fileType = ''mayaAscii'', s_startFrame = None, s_endFrame = None,
       s_bakeConnected = False, s_metadata = ()\<rparr>
     \<lparr>committed = [], permanent = []\<rparr>))) = [''foo.anim'']"
proof -
  let ?env = "\<lparr>TempDir = Inr ''/tmp/Transfer'',
       fromObjects = (\<lambda>objects. Inr []),
       updateMetadata = (\<lambda>anim metadata. Inr anim),
       anim_save = (\<lambda>anim tempPath fileType time bakeConnected. Inr [tempPath]),
       paths = (\<lambda>anim. anim),
       commit = (\<lambda>path contents store. (None, path # store))\<rparr>
     :: (string list, unit, string list) collaborators"
  let ?self = "\<lparr>item_path = [], transferObject = \<lparr>to_startFrame = None, to_endFrame = None\<rparr>\<rparr>"
  let ?a = "\<lparr>s_objects = Some [''pCube1''], s_path = ''foo'', s_contents = None, s_iconPath = [],
       s_fileType = ''mayaAscii'', s_startFrame = None, s_endFrame = None,
       s_bakeConnected = False, s_metadata = ()\<rparr>"
  let ?w = "\<lparr>committed = [], permanent = [] :: string list\<rparr>"
  have e: "\<not> endswith ''foo'' ''.anim''"
    by (simp add: endswith_def)
  from save_path_extension [of ?env "''/tmp/Transfer''" ?a "[]" "[]"
      "[''/tmp/Transfer/transfer.anim'']" "''foo''" ?self ?w] e
  show ?thesis by simp
qed

text \<open>
  C10. The empty path, the default, reaches \<open>BaseItem.save\<close> as the empty path: no
  extension is appended to it.
\<close>

theorem save_empty_path:
  assumes "TempDir env = Inr tempDir"
    and "fromObjects env (s_objects a) = Inr anim"
    and "updateMetadata env anim (s_metadata a) = Inr anim1"
    and "anim_save env anim1 (tempDir @ ''/transfer.anim'') (s_fileType a)
           (s_startFrame a, s_endFrame a) (s_bakeConnected a) = Inr anim2"
    and "s_path a = []"
  shows "map fst (committed (snd (save env self a w))) = map fst (committed w) @ [[]]"
  unfolding save_staged [OF assms(1-4)] BaseItem_save_committed
  by (simp add: assms(5) normalizePath_empty)

theorem save_empty_path_witness:
  "map fst (committed (snd (save
     \<lparr>TempDir = Inr ''/tmp/Transfer'',
       fromObjects = (\<lambda>objects. Inr []),
       updateMetadata = (\<lambda>anim metadata. Inr anim),
       anim_save = (\<lambda>anim tempPath fileType time bakeConnected. Inr [tempPath]),
       paths = (\<lambda>anim. anim),
       commit = (\<lambda>path contents store. (None, path # store))\<rparr>
     \<lparr>item_path = [], transferObject = \<lparr>to_startFrame = None, to_endFrame = None\<rparr>\<rparr>
     \<lparr>s_objects = Some [''pCube1''], s_path = [], s_contents = None, s_iconPath = [],
       s_fileType = ''mayaAscii'', s_startFrame = None, s_endFrame = None,
       s_bakeConnected = False, s_metadata = ()\<rparr>
     \<lparr>committed = [], permanent = []\<rparr>))) = [[]]"
proof -
  let ?env = "\<lparr>TempDir = Inr ''/tmp/Transfer'',
       fromObjects = (\<lambda>objects. Inr []),
       updateMetadata = (\<lambda>anim metadata. Inr anim),
       anim_save = (\<lambda>anim tempPath fileType time bakeConnected. Inr [tempPath]),
       paths = (\<lambda>anim. anim),
       commit = (\<lambda>path contents store. (None, path # store))\<rparr>
     :: (string list, unit, string list) collaborators"
  let ?self = "\<lparr>item_path = [], transferObject = \<lparr>to_startFrame = None, to_endFrame = None\<rparr>\<rparr>"
  let ?a = "\<lparr>s_objects = Some [''pCube1''], s_path = [], s_contents = None, s_iconPath = [],
       s_fileType = ''mayaAscii'', s_startFrame = None, s_endFrame = None,
       s_bakeConnected = False, s_metadata = ()\<rparr>"
  let ?w = "\<lparr>committed = [], permanent = [] :: string list\<rparr>"
  from save_empty_path [of ?env "''/tmp/Transfer''" ?a "[]" "[]"
      "[''/tmp/Transfer/transfer.anim'']" ?self ?w]
  show ?thesis by simp
qed

end
